theory Spec2Isabelle
  imports Complex_Main
begin

section \<open>The builder example: products, cooks and the kitchen manager\<close>

text \<open>
  TypeScript erases its string-literal union types (\<open>Food\<close>, \<open>Role\<close>, \<open>MageType\<close>,
  \<open>WarriorWeapon\<close>, ...): at run time they are strings, and every test the code makes on
  them is a string comparison. The model keeps them as \<open>string\<close>.

  A field that a constructor leaves unassigned reads as \<open>undefined\<close>; such a field is a
  \<open>string option\<close>, with \<open>None\<close> for \<open>undefined\<close>.

  Field names are global in HOL, so the \<open>cheese\<close> fields of the two products carry the
  product's name, and \<open>name\<close> is prefixed outside \<open>Cook\<close> (\<open>manager_name\<close>,
  \<open>char_name\<close>). \<open>identifier\<close> and \<open>includes\<close> are reserved words of the theory language:
  they are \<open>char_identifier\<close> and \<open>array_includes\<close>.
\<close>

subsection \<open>Products\<close>

record Pizza =
  flour :: "string option"
  topping :: "string option"
  pizza_cheese :: "string option"

record Sandwich =
  bread :: "string option"
  filling :: "string option"
  sandwich_cheese :: "string option"

text \<open>\<open>new Pizza()\<close> and \<open>new Sandwich()\<close>: no field is assigned.\<close>

definition new_Pizza :: Pizza where
  "new_Pizza = \<lparr>flour = None, topping = None, pizza_cheese = None\<rparr>"

definition new_Sandwich :: Sandwich where
  "new_Sandwich = \<lparr>bread = None, filling = None, sandwich_cheese = None\<rparr>"

text \<open>The union \<open>Sandwich | Pizza\<close> that \<open>getResult\<close> and \<open>fulfillOrder\<close> return.\<close>

datatype Product = A_Pizza Pizza | A_Sandwich Sandwich

subsection \<open>The builders\<close>

text \<open>
  The two classes that implement \<open>Cook\<close>, each with its \<open>name\<close> and its private
  \<open>result\<close>. A cook creates the product in \<open>result\<close> itself and never shares it with
  another cook, so the cook holds it by value. \<open>getResult\<close> returns the product in progress;
  the value returned here is that product as it is at the moment of the call.
\<close>

datatype Cook = PizzaMaker (name: string) (pizza: Pizza)
              | SandwichMaker (name: string) (sandwich: Sandwich)

text \<open>The constructors \<open>new PizzaMaker(name)\<close> and \<open>new SandwichMaker(name)\<close>.\<close>

definition new_PizzaMaker :: "string \<Rightarrow> Cook" where
  "new_PizzaMaker n = PizzaMaker n new_Pizza"

definition new_SandwichMaker :: "string \<Rightarrow> Cook" where
  "new_SandwichMaker n = SandwichMaker n new_Sandwich"

text \<open>
  The console is the list of lines printed so far; \<open>console.log\<close> adds one line. A method
  takes the receiver and the console and returns both as it leaves them.
\<close>

type_synonym console = "string list"

definition console_log :: "string \<Rightarrow> console \<Rightarrow> console" where
  "console_log line out = out @ [line]"

fun prepareBase :: "string \<Rightarrow> Cook \<Rightarrow> console \<Rightarrow> Cook \<times> console" where
  "prepareBase base (PizzaMaker n r) out =
     (PizzaMaker n (r\<lparr>flour := Some base\<rparr>),
      console_log (n @ '' is preparing the pizza base! '' @ base @ '' flour will be used.'') out)"
| "prepareBase base (SandwichMaker n r) out =
     (SandwichMaker n (r\<lparr>bread := Some base\<rparr>),
      console_log (n @ '' is preparing the sandwich bread! '' @ base @ '' bread will be used.'') out)"

fun addMeat :: "string \<Rightarrow> Cook \<Rightarrow> console \<Rightarrow> Cook \<times> console" where
  "addMeat meat (PizzaMaker n r) out =
     (PizzaMaker n (r\<lparr>topping := Some meat\<rparr>),
      console_log (n @ '' is adding the pizza topping! '' @ meat @ '' will be used.'') out)"
| "addMeat meat (SandwichMaker n r) out =
     (SandwichMaker n (r\<lparr>filling := Some meat\<rparr>),
      console_log (n @ '' is adding filling the sandwich! '' @ meat @ '' will be used.'') out)"

fun addCheese :: "string \<Rightarrow> Cook \<Rightarrow> console \<Rightarrow> Cook \<times> console" where
  "addCheese ch (PizzaMaker n r) out =
     (PizzaMaker n (r\<lparr>pizza_cheese := Some ch\<rparr>),
      console_log (n @ '' is adding cheese to the pizza! '' @ ch @ '' will be used.'') out)"
| "addCheese ch (SandwichMaker n r) out =
     (SandwichMaker n (r\<lparr>sandwich_cheese := Some ch\<rparr>),
      console_log (n @ '' is adding cheese to the sandwich! '' @ ch @ '' will be used.'') out)"

fun getResult :: "Cook \<Rightarrow> console \<Rightarrow> Product \<times> console" where
  "getResult (PizzaMaker n r) out = (A_Pizza r, console_log ''Pizza's ready!'' out)"
| "getResult (SandwichMaker n r) out = (A_Sandwich r, console_log ''Sandwich is ready!'' out)"

fun startNew :: "Cook \<Rightarrow> Cook" where
  "startNew (PizzaMaker n r) = PizzaMaker n new_Pizza"
| "startNew (SandwichMaker n r) = SandwichMaker n new_Sandwich"

text \<open>
  The client code that uses a builder without a director. The parameter is declared as a
  \<open>PizzaMaker\<close> (a \<open>SandwichMaker\<close>) in the source; the calls are the same on both. The
  builder is returned with the product, since the calls change it.
\<close>

definition createSandwichWithoutKitchenManager ::
    "Cook \<Rightarrow> string \<Rightarrow> string \<Rightarrow> string \<Rightarrow> console \<Rightarrow> Product \<times> Cook \<times> console" where
  "createSandwichWithoutKitchenManager sandwichMaker b fil ch out0 =
     (let (c1, out1) = prepareBase b sandwichMaker out0;
          (c2, out2) = addMeat fil c1 out1;
          (c3, out3) = addCheese ch c2 out2;
          (p, out4) = getResult c3 out3
      in (p, c3, out4))"

definition createPizzaWithoutKitchenManager ::
    "Cook \<Rightarrow> string \<Rightarrow> string \<Rightarrow> string \<Rightarrow> console \<Rightarrow> Product \<times> Cook \<times> console" where
  "createPizzaWithoutKitchenManager pizzaMaker fl tp ch out0 =
     (let (c1, out1) = prepareBase fl pizzaMaker out0;
          (c2, out2) = addMeat tp c1 out1;
          (c3, out3) = addCheese ch c2 out2;
          (p, out4) = getResult c3 out3
      in (p, c3, out4))"

text \<open>
  Any sequence of build-step calls that client code may make on a builder, and the value
  that the last call of one kind in such a sequence passed (the value before the sequence
  when there is no such call).
\<close>

datatype BuildStep = PrepareBase string | AddMeat string | AddCheese string

fun build_step :: "BuildStep \<Rightarrow> Cook \<times> console \<Rightarrow> Cook \<times> console" where
  "build_step (PrepareBase b) (c, out) = prepareBase b c out"
| "build_step (AddMeat m) (c, out) = addMeat m c out"
| "build_step (AddCheese ch) (c, out) = addCheese ch c out"

fun build_steps :: "BuildStep list \<Rightarrow> Cook \<times> console \<Rightarrow> Cook \<times> console" where
  "build_steps [] s = s"
| "build_steps (x # xs) s = build_steps xs (build_step x s)"

fun last_base :: "string option \<Rightarrow> BuildStep list \<Rightarrow> string option" where
  "last_base v [] = v"
| "last_base v (PrepareBase b # xs) = last_base (Some b) xs"
| "last_base v (x # xs) = last_base v xs"

fun last_meat :: "string option \<Rightarrow> BuildStep list \<Rightarrow> string option" where
  "last_meat v [] = v"
| "last_meat v (AddMeat m # xs) = last_meat (Some m) xs"
| "last_meat v (x # xs) = last_meat v xs"

fun last_cheese :: "string option \<Rightarrow> BuildStep list \<Rightarrow> string option" where
  "last_cheese v [] = v"
| "last_cheese v (AddCheese ch # xs) = last_cheese (Some ch) xs"
| "last_cheese v (x # xs) = last_cheese v xs"

subsection \<open>The director\<close>

text \<open>
  A \<open>KitchenManager\<close> holds references to cooks that its caller also holds (the example
  passes \<open>pizzaMaker\<close> and \<open>sandwichMaker\<close>, which it has used before). Cooks therefore live
  in a store: the heap is the list of all cooks allocated so far, a reference is an index
  into it, and \<open>new\<close> appends. The world is the heap and the console.
\<close>

record World =
  heap :: "Cook list"
  stdout :: console

text \<open>A reference is valid when it points into the heap.\<close>

definition valid_ref :: "World \<Rightarrow> nat \<Rightarrow> bool" where
  "valid_ref w a = (a < length (heap w))"

text \<open>
  A method call through a reference: run the method on the cook stored there and store the
  cook as the method leaves it. A running program holds valid references only, and the
  properties of the director are stated for valid references.
\<close>

definition invoke :: "nat \<Rightarrow> (Cook \<Rightarrow> console \<Rightarrow> Cook \<times> console) \<Rightarrow> World \<Rightarrow> World" where
  "invoke a method w =
     (let (c, out) = method (heap w ! a) (stdout w)
      in \<lparr>heap = (heap w)[a := c], stdout = out\<rparr>)"

text \<open>
  The two classes as values (\<open>RequiredCookType\<close> holds one of them), \<open>instanceof\<close> on
  them, and \<open>new\<close> applied to such a value.
\<close>

datatype CookClass = PizzaMaker_class | SandwichMaker_class

fun instanceof :: "Cook \<Rightarrow> CookClass \<Rightarrow> bool" where
  "instanceof (PizzaMaker n r) PizzaMaker_class = True"
| "instanceof (SandwichMaker n r) SandwichMaker_class = True"
| "instanceof c k = False"

fun new_Cook :: "CookClass \<Rightarrow> string \<Rightarrow> Cook" where
  "new_Cook PizzaMaker_class n = new_PizzaMaker n"
| "new_Cook SandwichMaker_class n = new_SandwichMaker n"

text \<open>A thrown \<open>Error\<close>, with its message.\<close>

datatype error = Error string

record Order =
  food :: string
  base :: string
  meat :: string
  cheese :: string

record KitchenManager =
  manager_name :: string
  managedCooks :: "nat list"
  activeCook :: nat

text \<open>
  The constructor. The rest parameter \<open>...cooks\<close> is a fresh array of the references
  passed, so the manager's list is its own.
\<close>

definition new_KitchenManager :: "string \<Rightarrow> nat list \<Rightarrow> error + KitchenManager" where
  "new_KitchenManager n cooks =
     (if length cooks = 0 then Inl (Error ''A kitchen manager must have cooks!'')
      else Inr \<lparr>manager_name = n, managedCooks = cooks, activeCook = cooks ! 0\<rparr>)"

text \<open>
  The local constant \<open>RequiredCookType\<close> of \<open>findSuitableCook\<close>:
  \<open>(food === "pizza" && PizzaMaker) || SandwichMaker\<close> is \<open>PizzaMaker\<close> when the food is
  \<open>"pizza"\<close> and \<open>SandwichMaker\<close> for every other value.
\<close>

definition RequiredCookType :: "string \<Rightarrow> CookClass" where
  "RequiredCookType fd = (if fd = ''pizza'' then PizzaMaker_class else SandwichMaker_class)"

definition findSuitableCook :: "string \<Rightarrow> KitchenManager \<Rightarrow> World \<Rightarrow> KitchenManager \<times> World" where
  "findSuitableCook fd this w =
     (if \<not> instanceof (heap w ! activeCook this) (RequiredCookType fd) then
        (let out1 = console_log ''Changing currently active cook!'' (stdout w);
             oneOfOurCooks =
               find (\<lambda>cook. instanceof (heap w ! cook) (RequiredCookType fd)) (managedCooks this)
         in case oneOfOurCooks of
              None \<Rightarrow>
                (let fresh = length (heap w)
                 in (this\<lparr>activeCook := fresh, managedCooks := managedCooks this @ [fresh]\<rparr>,
                     \<lparr>heap = heap w @ [new_Cook (RequiredCookType fd) ''George''], stdout = out1\<rparr>))
            | Some cook \<Rightarrow> (this\<lparr>activeCook := cook\<rparr>, w\<lparr>stdout := out1\<rparr>))
      else (this, w))"

definition fulfillOrder :: "Order \<Rightarrow> KitchenManager \<Rightarrow> World \<Rightarrow> Product \<times> KitchenManager \<times> World" where
  "fulfillOrder order this w0 =
     (let (this1, w1) = findSuitableCook (food order) this w0;
          w2 = invoke (activeCook this1) (\<lambda>c out. (startNew c, out)) w1;
          w3 = invoke (activeCook this1) (prepareBase (base order)) w2;
          w4 = invoke (activeCook this1) (addMeat (meat order)) w3;
          w5 = invoke (activeCook this1) (addCheese (cheese order)) w4;
          (p, out) = getResult (heap w5 ! activeCook this1) (stdout w5)
      in (p, this1, w5\<lparr>stdout := out\<rparr>))"

text \<open>
  The states of a manager and the world that a successful construction over valid
  references, followed by any number of orders, can reach.
\<close>

inductive reachable :: "KitchenManager \<Rightarrow> World \<Rightarrow> bool" where
  constructed:
    "new_KitchenManager n cooks = Inr km \<Longrightarrow> list_all (valid_ref w) cooks \<Longrightarrow> reachable km w"
| served:
    "reachable km w \<Longrightarrow> fulfillOrder order km w = (p, km', w') \<Longrightarrow> reachable km' w'"

section \<open>The factory example: characters\<close>

text \<open>
  The two subclasses of the abstract class \<open>Character\<close>, each with the fields it inherits
  and its own. The subclasses declare \<open>type\<close> again, with a narrower type and no
  initialiser: this is a declaration for the type checker only (the class-field semantics
  under which the file compiles), so the field keeps the value that the constructor of
  \<open>Character\<close> assigned. \<open>level\<close> is a number that the factory only ever sets to 1; it is
  an integer here.
\<close>

datatype Character =
    Mage (char_name: string) (role: string) (level: int) (type: string)
         (char_identifier: string) (usesScepter: bool)
  | Warrior (char_name: string) (role: string) (level: int) (type: string)
            (char_identifier: string) (weapon: string)

text \<open>
  The decimal digits of a number, as the template literal renders an integer (of less than
  22 digits; JavaScript switches to exponent notation beyond).
\<close>

fun digits_of :: "nat \<Rightarrow> string" where
  "digits_of n =
     (if n < 10 then [''0123456789'' ! n]
      else digits_of (n div 10) @ [''0123456789'' ! (n mod 10)])"

declare digits_of.simps [simp del]

definition number_toString :: "int \<Rightarrow> string" where
  "number_toString i = (if i < 0 then ''-'' @ digits_of (nat (- i)) else digits_of (nat i))"

text \<open>
  The identifier that the constructor of \<open>Character\<close> computes:
  \<open>`${this.name} [Lvl ${this.level} ${this.type} ${this.role}]`\<close>.
\<close>

definition make_identifier :: "string \<Rightarrow> string \<Rightarrow> string \<Rightarrow> int \<Rightarrow> string" where
  "make_identifier n r t l = n @ '' [Lvl '' @ number_toString l @ '' '' @ t @ '' '' @ r @ '']''"

text \<open>The constructors of the subclasses, each calling \<open>super\<close> with its role.\<close>

definition new_Mage :: "string \<Rightarrow> int \<Rightarrow> string \<Rightarrow> bool \<Rightarrow> Character" where
  "new_Mage n l t s = Mage n ''Mage'' l t (make_identifier n ''Mage'' t l) s"

definition new_Warrior :: "string \<Rightarrow> int \<Rightarrow> string \<Rightarrow> string \<Rightarrow> Character" where
  "new_Warrior n l t wp = Warrior n ''Warrior'' l t (make_identifier n ''Warrior'' t l) wp"

text \<open>
  The static tables of \<open>CharacterFactory\<close>, in the order of their keys, and
  \<open>Object.keys\<close>.
\<close>

definition mageWeaponsMap :: "(string \<times> string) list" where
  "mageWeaponsMap = [(''Hands'', ''Hands''), (''Scepter'', ''Scepter'')]"

definition warriorWeaponsMap :: "(string \<times> string) list" where
  "warriorWeaponsMap =
     [(''Hands'', ''Hands''), (''Axe'', ''Axe''), (''Sword'', ''Sword''), (''Hammer'', ''Hammer'')]"

definition Object_keys :: "(string \<times> string) list \<Rightarrow> string list" where
  "Object_keys m = map fst m"

definition array_includes :: "string list \<Rightarrow> string \<Rightarrow> bool" where
  "array_includes xs x = (x \<in> set xs)"

text \<open>
  \<open>getRandomType\<close> draws one number from \<open>Math.random()\<close>; the draw is the parameter
  \<open>rnd\<close>, so that a statement for every \<open>rnd\<close> holds whatever the generator returns.
\<close>

definition getRandomType :: "real \<Rightarrow> string \<Rightarrow> string" where
  "getRandomType rnd r =
     (let isOverHalf = (rnd > 0.5)
      in if r = ''Mage'' then (if isOverHalf then ''Fire'' else ''Ice'')
         else (if isOverHalf then ''Barbarian'' else ''Paladin''))"

text \<open>
  \<open>weapon\<close> is declared as a \<open>CharacterWeapon\<close>, but the function tests it at run time and
  throws for any other string, so it is a string here.
\<close>

definition createNewCharacter :: "real \<Rightarrow> string \<Rightarrow> string \<Rightarrow> error + Character" where
  "createNewCharacter rnd n wp =
     (if array_includes (Object_keys mageWeaponsMap) wp
        then Inr (new_Mage n 1 (getRandomType rnd ''Mage'') True)
      else if array_includes (Object_keys warriorWeaponsMap) wp
        then Inr (new_Warrior n 1 (getRandomType rnd ''Warrior'') ''Sword'')
      else Inl (Error ''This weapon is not available for standard characters!''))"

section \<open>Auxiliary definitions\<close>

text \<open>
  What a manager's references satisfy in every reachable state: they are valid, and the
  active cook is one of the managed cooks.
\<close>

definition manager_inv :: "KitchenManager \<Rightarrow> World \<Rightarrow> bool" where
  "manager_inv km w =
     (valid_ref w (activeCook km) \<and> list_all (valid_ref w) (managedCooks km)
      \<and> activeCook km \<in> set (managedCooks km))"

text \<open>
  The example run of the source at the moment it constructs its manager: \<open>pizzaMaker\<close>
  (Anna, reference 0) holds the pepperoni pizza and \<open>sandwichMaker\<close> (Jeremy, reference 1)
  the chicken mayo sandwich, both built without a director. \<open>kitchenManager\<close> is
  \<open>new KitchenManager("Melissa", pizzaMaker, sandwichMaker)\<close>; \<open>pizzaOnlyManager\<close> is a
  manager given \<open>pizzaMaker\<close> alone. The two orders are those of the example.
\<close>

definition example_world :: World where
  "example_world =
     \<lparr>heap = [PizzaMaker ''Anna'' \<lparr>flour = Some ''wheat'', topping = Some ''pepperoni'',
                                   pizza_cheese = Some ''brick cheese''\<rparr>,
              SandwichMaker ''Jeremy'' \<lparr>bread = Some ''italian'',
                                        filling = Some ''chicken and mayo'',
                                        sandwich_cheese = Some ''parmesan''\<rparr>],
      stdout = []\<rparr>"

definition kitchenManager :: KitchenManager where
  "kitchenManager = \<lparr>manager_name = ''Melissa'', managedCooks = [0, 1], activeCook = 0\<rparr>"

definition pizzaOnlyManager :: KitchenManager where
  "pizzaOnlyManager = \<lparr>manager_name = ''Melissa'', managedCooks = [0], activeCook = 0\<rparr>"

definition groundBeefPizza_order :: Order where
  "groundBeefPizza_order =
     \<lparr>food = ''pizza'', base = ''bread'', meat = ''ground beef'', cheese = ''mozzarella''\<rparr>"

definition pastramiSandwich_order :: Order where
  "pastramiSandwich_order =
     \<lparr>food = ''sandwich'', base = ''whole grain'', meat = ''pastrami'', cheese = ''cheddar''\<rparr>"

section \<open>Properties of the builders\<close>

text \<open>
  C2. On a pizza maker and on a sandwich maker, whatever product it holds, the steps
  \<open>prepareBase\<close>, \<open>addMeat\<close>, \<open>addCheese\<close> followed by \<open>getResult\<close> return a product
  whose three fields are exactly the three strings passed, in that order. The strings are
  arbitrary: no step rejects or alters a value.
\<close>

theorem build_steps_store_values:
  "fst (createPizzaWithoutKitchenManager (PizzaMaker n p) b m ch out) =
     A_Pizza \<lparr>flour = Some b, topping = Some m, pizza_cheese = Some ch\<rparr>
   \<and> fst (createSandwichWithoutKitchenManager (SandwichMaker n s) b m ch out) =
     A_Sandwich \<lparr>bread = Some b, filling = Some m, sandwich_cheese = Some ch\<rparr>"
  by (simp add: createPizzaWithoutKitchenManager_def createSandwichWithoutKitchenManager_def)

theorem build_steps_store_values_witness:
  "fst (createPizzaWithoutKitchenManager (PizzaMaker ''Anna'' new_Pizza)
          ''wheat'' ''pepperoni'' ''brick cheese'' []) =
     A_Pizza \<lparr>flour = Some ''wheat'', topping = Some ''pepperoni'',
              pizza_cheese = Some ''brick cheese''\<rparr>
   \<and> fst (createSandwichWithoutKitchenManager (SandwichMaker ''Jeremy'' new_Sandwich)
          ''italian'' ''chicken and mayo'' ''parmesan'' []) =
     A_Sandwich \<lparr>bread = Some ''italian'', filling = Some ''chicken and mayo'',
                 sandwich_cheese = Some ''parmesan''\<rparr>"
proof -
  have pz: "fst (createPizzaWithoutKitchenManager (PizzaMaker ''Anna'' new_Pizza)
                   ''wheat'' ''pepperoni'' ''brick cheese'' []) =
            A_Pizza \<lparr>flour = Some ''wheat'', topping = Some ''pepperoni'',
                     pizza_cheese = Some ''brick cheese''\<rparr>"
    using build_steps_store_values
            [where n = "''Anna''" and p = new_Pizza and b = "''wheat''" and m = "''pepperoni''"
               and ch = "''brick cheese''" and out = "[]"]
    by simp
  have sw: "fst (createSandwichWithoutKitchenManager (SandwichMaker ''Jeremy'' new_Sandwich)
                   ''italian'' ''chicken and mayo'' ''parmesan'' []) =
            A_Sandwich \<lparr>bread = Some ''italian'', filling = Some ''chicken and mayo'',
                        sandwich_cheese = Some ''parmesan''\<rparr>"
    using build_steps_store_values
            [where n = "''Jeremy''" and s = new_Sandwich and b = "''italian''"
               and m = "''chicken and mayo''" and ch = "''parmesan''" and out = "[]"]
    by simp
  from pz sw show ?thesis by simp
qed

lemma build_steps_pizza:
  "fst (build_steps xs (PizzaMaker n p, out)) =
     PizzaMaker n \<lparr>flour = last_base (flour p) xs, topping = last_meat (topping p) xs,
                   pizza_cheese = last_cheese (pizza_cheese p) xs\<rparr>"
proof (induction xs arbitrary: p out)
  case Nil
  show ?case by simp
next
  case (Cons x xs)
  show ?case by (cases x) (simp_all add: Cons.IH)
qed

lemma build_steps_sandwich:
  "fst (build_steps xs (SandwichMaker n p, out)) =
     SandwichMaker n \<lparr>bread = last_base (bread p) xs, filling = last_meat (filling p) xs,
                   sandwich_cheese = last_cheese (sandwich_cheese p) xs\<rparr>"
proof (induction xs arbitrary: p out)
  case Nil
  show ?case by simp
next
  case (Cons x xs)
  show ?case by (cases x) (simp_all add: Cons.IH)
qed

text \<open>
  C9. After \<open>startNew\<close>, whatever product the builder held before (a completed one
  included), nothing of it is left: \<open>getResult\<close> called at once returns a product with all
  three fields unset, and after any sequence of build steps each field of the product is the
  value passed by the last step of its kind in that sequence, or unset when the sequence has
  no such step.
\<close>

theorem startNew_no_residue:
  "fst (getResult (startNew (PizzaMaker n p)) out) =
     A_Pizza \<lparr>flour = None, topping = None, pizza_cheese = None\<rparr>
   \<and> fst (getResult (startNew (SandwichMaker n s)) out) =
     A_Sandwich \<lparr>bread = None, filling = None, sandwich_cheese = None\<rparr>
   \<and> fst (getResult (fst (build_steps xs (startNew (PizzaMaker n p), out))) out') =
     A_Pizza \<lparr>flour = last_base None xs, topping = last_meat None xs,
              pizza_cheese = last_cheese None xs\<rparr>
   \<and> fst (getResult (fst (build_steps xs (startNew (SandwichMaker n s), out))) out') =
     A_Sandwich \<lparr>bread = last_base None xs, filling = last_meat None xs,
                 sandwich_cheese = last_cheese None xs\<rparr>"
  by (simp add: build_steps_pizza build_steps_sandwich new_Pizza_def new_Sandwich_def)

theorem startNew_no_residue_witness:
  "fst (getResult (fst (build_steps [PrepareBase ''bread'', AddCheese ''mozzarella'']
          (startNew (PizzaMaker ''Anna'' \<lparr>flour = Some ''wheat'', topping = Some ''pepperoni'',
                                          pizza_cheese = Some ''brick cheese''\<rparr>), []))) []) =
     A_Pizza \<lparr>flour = Some ''bread'', topping = None, pizza_cheese = Some ''mozzarella''\<rparr>"
  using startNew_no_residue
          [where n = "''Anna''"
             and p = "\<lparr>flour = Some ''wheat'', topping = Some ''pepperoni'',
                        pizza_cheese = Some ''brick cheese''\<rparr>"
             and xs = "[PrepareBase ''bread'', AddCheese ''mozzarella'']"
             and out = "[]" and out' = "[]"]
  by simp

section \<open>Properties of the director\<close>

text \<open>
  C3. Constructing a \<open>KitchenManager\<close> with no cook fails with an error; constructing it
  with one cook or more succeeds, the manager holds the cooks given, and the first of them
  is the active cook.
\<close>

theorem new_KitchenManager_cases:
  "new_KitchenManager n [] = Inl (Error ''A kitchen manager must have cooks!'')
   \<and> new_KitchenManager n (c # cs) =
       Inr \<lparr>manager_name = n, managedCooks = c # cs, activeCook = c\<rparr>"
  by (simp add: new_KitchenManager_def)

theorem new_KitchenManager_cases_witness:
  "new_KitchenManager ''Melissa'' [] = Inl (Error ''A kitchen manager must have cooks!'')
   \<and> new_KitchenManager ''Melissa'' [0, 1] = Inr kitchenManager"
  using new_KitchenManager_cases [of "''Melissa''" 0 "[1]"]
  by (simp add: kitchenManager_def)

lemma find_first:
  "i < length xs \<Longrightarrow> P (xs ! i) \<Longrightarrow> (\<forall>j<i. \<not> P (xs ! j)) \<Longrightarrow> find P xs = Some (xs ! i)"
  by (auto simp: find_Some_iff)

lemma findSuitableCook_keep:
  "instanceof (heap w ! activeCook km) (RequiredCookType fd) \<Longrightarrow> findSuitableCook fd km w = (km, w)"
  by (simp add: findSuitableCook_def)

lemma findSuitableCook_found:
  "\<not> instanceof (heap w ! activeCook km) (RequiredCookType fd) \<Longrightarrow>
   find (\<lambda>cook. instanceof (heap w ! cook) (RequiredCookType fd)) (managedCooks km) = Some a \<Longrightarrow>
   findSuitableCook fd km w =
     (km\<lparr>activeCook := a\<rparr>, w\<lparr>stdout := stdout w @ [''Changing currently active cook!'']\<rparr>)"
  by (simp add: findSuitableCook_def console_log_def)

lemma findSuitableCook_new:
  "\<not> instanceof (heap w ! activeCook km) (RequiredCookType fd) \<Longrightarrow>
   find (\<lambda>cook. instanceof (heap w ! cook) (RequiredCookType fd)) (managedCooks km) = None \<Longrightarrow>
   findSuitableCook fd km w =
     (km\<lparr>activeCook := length (heap w), managedCooks := managedCooks km @ [length (heap w)]\<rparr>,
      \<lparr>heap = heap w @ [new_Cook (RequiredCookType fd) ''George''],
       stdout = stdout w @ [''Changing currently active cook!'']\<rparr>)"
  by (simp add: findSuitableCook_def console_log_def Let_def)

lemma instanceof_new_Cook: "instanceof (new_Cook k n) k"
  by (cases k) (simp_all add: new_PizzaMaker_def new_SandwichMaker_def)

lemma findSuitableCook_active:
  assumes "valid_ref w (activeCook km)" "list_all (valid_ref w) (managedCooks km)"
    and "findSuitableCook fd km w = (km', w')"
  shows "valid_ref w' (activeCook km') \<and> instanceof (heap w' ! activeCook km') (RequiredCookType fd)"
proof (cases "instanceof (heap w ! activeCook km) (RequiredCookType fd)")
  case True
  with assms show ?thesis by (simp add: findSuitableCook_keep)
next
  case False
  show ?thesis
  proof (cases "find (\<lambda>cook. instanceof (heap w ! cook) (RequiredCookType fd)) (managedCooks km)")
    case None
    from findSuitableCook_new [OF False None] assms(3) show ?thesis
      by (auto simp: valid_ref_def instanceof_new_Cook)
  next
    case (Some a)
    then have "a \<in> set (managedCooks km)" and "instanceof (heap w ! a) (RequiredCookType fd)"
      by (auto simp: find_Some_iff)
    with findSuitableCook_found [OF False Some] assms show ?thesis
      by (auto simp: valid_ref_def list_all_iff)
  qed
qed

lemma build_in_heap_pizza:
  assumes "a < length (heap w1)" "instanceof (heap w1 ! a) PizzaMaker_class"
  shows "fst (getResult
           (heap (invoke a (addCheese ch) (invoke a (addMeat m) (invoke a (prepareBase b)
              (invoke a (\<lambda>c out. (startNew c, out)) w1)))) ! a) out') =
         A_Pizza \<lparr>flour = Some b, topping = Some m, pizza_cheese = Some ch\<rparr>"
proof (cases "heap w1 ! a")
  case (PizzaMaker n r)
  with assms(1) show ?thesis by (simp add: invoke_def new_Pizza_def)
next
  case (SandwichMaker n r)
  with assms(2) show ?thesis by simp
qed

lemma build_in_heap_sandwich:
  assumes "a < length (heap w1)" "instanceof (heap w1 ! a) SandwichMaker_class"
  shows "fst (getResult
           (heap (invoke a (addCheese ch) (invoke a (addMeat m) (invoke a (prepareBase b)
              (invoke a (\<lambda>c out. (startNew c, out)) w1)))) ! a) out') =
         A_Sandwich \<lparr>bread = Some b, filling = Some m, sandwich_cheese = Some ch\<rparr>"
proof (cases "heap w1 ! a")
  case (PizzaMaker n r)
  with assms(2) show ?thesis by simp
next
  case (SandwichMaker n r)
  with assms(1) show ?thesis by (simp add: invoke_def new_Sandwich_def)
qed

lemma new_KitchenManager_inv:
  assumes "new_KitchenManager n cooks = Inr km" and "list_all (valid_ref w) cooks"
  shows "manager_inv km w"
proof (cases cooks)
  case Nil
  with assms(1) show ?thesis by (simp add: new_KitchenManager_def)
next
  case (Cons c cs)
  with assms show ?thesis by (auto simp: new_KitchenManager_def manager_inv_def)
qed

lemma findSuitableCook_inv:
  assumes "manager_inv km w" and "findSuitableCook fd km w = (km', w')"
  shows "manager_inv km' w'"
proof (cases "instanceof (heap w ! activeCook km) (RequiredCookType fd)")
  case True
  with assms show ?thesis by (simp add: findSuitableCook_keep)
next
  case False
  show ?thesis
  proof (cases "find (\<lambda>cook. instanceof (heap w ! cook) (RequiredCookType fd)) (managedCooks km)")
    case None
    from findSuitableCook_new [OF False None] assms show ?thesis
      by (auto simp: manager_inv_def valid_ref_def list_all_iff)
  next
    case (Some a)
    then have "a \<in> set (managedCooks km)"
      by (auto simp: find_Some_iff)
    with findSuitableCook_found [OF False Some] assms show ?thesis
      by (auto simp: manager_inv_def valid_ref_def list_all_iff)
  qed
qed

lemma length_heap_invoke: "length (heap (invoke a f w)) = length (heap w)"
  by (simp add: invoke_def split_beta)

lemma fulfillOrder_manager:
  assumes "fulfillOrder order km w = (p, km', w')"
  shows "\<exists>w1. findSuitableCook (food order) km w = (km', w1) \<and> length (heap w') = length (heap w1)"
proof -
  obtain km1 w1 where f: "findSuitableCook (food order) km w = (km1, w1)"
    by (cases "findSuitableCook (food order) km w")
  with assms have "km' = km1" and "length (heap w') = length (heap w1)"
    by (auto simp: fulfillOrder_def Let_def split_beta length_heap_invoke)
  with f show ?thesis by simp
qed

lemma fulfillOrder_inv:
  assumes "manager_inv km w" and "fulfillOrder order km w = (p, km', w')"
  shows "manager_inv km' w'"
proof -
  from fulfillOrder_manager [OF assms(2)] obtain w1
    where f: "findSuitableCook (food order) km w = (km', w1)"
      and l: "length (heap w') = length (heap w1)"
    by blast
  from findSuitableCook_inv [OF assms(1) f] l show ?thesis
    by (simp add: manager_inv_def valid_ref_def list_all_iff)
qed

lemma reachable_inv: "reachable km w \<Longrightarrow> manager_inv km w"
proof (induction rule: reachable.induct)
  case (constructed n cooks km w)
  then show ?case by (rule new_KitchenManager_inv)
next
  case (served km w order p km' w')
  then show ?case by (blast intro: fulfillOrder_inv)
qed

text \<open>
  C1. Whatever cooks the manager holds (all references valid), whichever of them is active
  and whatever product each cook holds: for an order whose food is \<open>"pizza"\<close>,
  \<open>fulfillOrder\<close> returns a pizza whose flour, topping and cheese are the order's base, meat
  and cheese; for an order whose food is \<open>"sandwich"\<close>, it returns a sandwich whose bread,
  filling and cheese are the order's base, meat and cheese.
\<close>

theorem fulfillOrder_product:
  assumes "valid_ref w (activeCook km)" and "list_all (valid_ref w) (managedCooks km)"
  shows "(food order = ''pizza'' \<longrightarrow>
            fst (fulfillOrder order km w) =
              A_Pizza \<lparr>flour = Some (base order), topping = Some (meat order),
                       pizza_cheese = Some (cheese order)\<rparr>)
       \<and> (food order = ''sandwich'' \<longrightarrow>
            fst (fulfillOrder order km w) =
              A_Sandwich \<lparr>bread = Some (base order), filling = Some (meat order),
                          sandwich_cheese = Some (cheese order)\<rparr>)"
proof -
  obtain km1 w1 where f: "findSuitableCook (food order) km w = (km1, w1)"
    by (cases "findSuitableCook (food order) km w")
  from findSuitableCook_active [OF assms f]
  have v: "activeCook km1 < length (heap w1)"
    and i: "instanceof (heap w1 ! activeCook km1) (RequiredCookType (food order))"
    by (simp_all add: valid_ref_def)
  have r: "fst (fulfillOrder order km w) =
      fst (getResult
           (heap (invoke (activeCook km1) (addCheese (cheese order))
              (invoke (activeCook km1) (addMeat (meat order))
                (invoke (activeCook km1) (prepareBase (base order))
                  (invoke (activeCook km1) (\<lambda>c out. (startNew c, out)) w1)))) ! activeCook km1)
           (stdout (invoke (activeCook km1) (addCheese (cheese order))
              (invoke (activeCook km1) (addMeat (meat order))
                (invoke (activeCook km1) (prepareBase (base order))
                  (invoke (activeCook km1) (\<lambda>c out. (startNew c, out)) w1))))))"
    by (simp add: fulfillOrder_def f Let_def split_beta)
  show ?thesis
  proof (intro conjI impI)
    assume "food order = ''pizza''"
    with i have "instanceof (heap w1 ! activeCook km1) PizzaMaker_class"
      by (simp add: RequiredCookType_def)
    from build_in_heap_pizza [OF v this] r
    show "fst (fulfillOrder order km w) =
              A_Pizza \<lparr>flour = Some (base order), topping = Some (meat order),
                       pizza_cheese = Some (cheese order)\<rparr>"
      by simp
  next
    assume "food order = ''sandwich''"
    with i have "instanceof (heap w1 ! activeCook km1) SandwichMaker_class"
      by (simp add: RequiredCookType_def)
    from build_in_heap_sandwich [OF v this] r
    show "fst (fulfillOrder order km w) =
              A_Sandwich \<lparr>bread = Some (base order), filling = Some (meat order),
                          sandwich_cheese = Some (cheese order)\<rparr>"
      by simp
  qed
qed

theorem fulfillOrder_product_witness:
  "valid_ref example_world (activeCook kitchenManager)
   \<and> list_all (valid_ref example_world) (managedCooks kitchenManager)
   \<and> fst (fulfillOrder groundBeefPizza_order kitchenManager example_world) =
       A_Pizza \<lparr>flour = Some ''bread'', topping = Some ''ground beef'',
                pizza_cheese = Some ''mozzarella''\<rparr>
   \<and> fst (fulfillOrder pastramiSandwich_order kitchenManager example_world) =
       A_Sandwich \<lparr>bread = Some ''whole grain'', filling = Some ''pastrami'',
                   sandwich_cheese = Some ''cheddar''\<rparr>"
proof -
  have v: "valid_ref example_world (activeCook kitchenManager)"
    by (simp add: valid_ref_def example_world_def kitchenManager_def)
  have l: "list_all (valid_ref example_world) (managedCooks kitchenManager)"
    by (simp add: valid_ref_def example_world_def kitchenManager_def)
  show ?thesis
    using v l fulfillOrder_product [OF v l, of groundBeefPizza_order]
      fulfillOrder_product [OF v l, of pastramiSandwich_order]
    by (simp add: groundBeefPizza_order_def pastramiSandwich_order_def)
qed

text \<open>
  C4. In every reachable state of a manager, for every food requested: if the active cook
  is of the required class, \<open>findSuitableCook\<close> changes nothing; if it is not and the cook at
  position \<open>i\<close> of the managed collection is the first of the required class, that cook
  becomes active, and the collection and the cooks stay as they are; if it is not and no
  managed cook is of the required class, a new cook of the required class, named George and
  holding an empty product, is created, appended to the collection and made active, and it
  is none of the cooks managed before.
\<close>

theorem findSuitableCook_behaviour:
  assumes "reachable km w"
  shows "(instanceof (heap w ! activeCook km) (RequiredCookType fd) \<longrightarrow>
            findSuitableCook fd km w = (km, w))
       \<and> (\<not> instanceof (heap w ! activeCook km) (RequiredCookType fd)
            \<and> i < length (managedCooks km)
            \<and> instanceof (heap w ! (managedCooks km ! i)) (RequiredCookType fd)
            \<and> (\<forall>j<i. \<not> instanceof (heap w ! (managedCooks km ! j)) (RequiredCookType fd)) \<longrightarrow>
            findSuitableCook fd km w =
              (km\<lparr>activeCook := managedCooks km ! i\<rparr>,
               w\<lparr>stdout := stdout w @ [''Changing currently active cook!'']\<rparr>))
       \<and> (\<not> instanceof (heap w ! activeCook km) (RequiredCookType fd)
            \<and> (\<forall>a\<in>set (managedCooks km). \<not> instanceof (heap w ! a) (RequiredCookType fd)) \<longrightarrow>
            findSuitableCook fd km w =
              (km\<lparr>activeCook := length (heap w),
                  managedCooks := managedCooks km @ [length (heap w)]\<rparr>,
               \<lparr>heap = heap w @ [new_Cook (RequiredCookType fd) ''George''],
                stdout = stdout w @ [''Changing currently active cook!'']\<rparr>)
            \<and> new_Cook (RequiredCookType fd) ''George'' =
                (if fd = ''pizza''
                 then PizzaMaker ''George'' \<lparr>flour = None, topping = None, pizza_cheese = None\<rparr>
                 else SandwichMaker ''George''
                        \<lparr>bread = None, filling = None, sandwich_cheese = None\<rparr>)
            \<and> length (heap w) \<notin> set (managedCooks km))"
proof (intro conjI impI)
  assume "instanceof (heap w ! activeCook km) (RequiredCookType fd)"
  then show "findSuitableCook fd km w = (km, w)" by (rule findSuitableCook_keep)
next
  assume a: "\<not> instanceof (heap w ! activeCook km) (RequiredCookType fd)
            \<and> i < length (managedCooks km)
            \<and> instanceof (heap w ! (managedCooks km ! i)) (RequiredCookType fd)
            \<and> (\<forall>j<i. \<not> instanceof (heap w ! (managedCooks km ! j)) (RequiredCookType fd))"
  then have "find (\<lambda>cook. instanceof (heap w ! cook) (RequiredCookType fd)) (managedCooks km)
               = Some (managedCooks km ! i)"
    by (simp add: find_first)
  with a show "findSuitableCook fd km w =
              (km\<lparr>activeCook := managedCooks km ! i\<rparr>,
               w\<lparr>stdout := stdout w @ [''Changing currently active cook!'']\<rparr>)"
    by (simp add: findSuitableCook_found)
next
  assume a: "\<not> instanceof (heap w ! activeCook km) (RequiredCookType fd)
            \<and> (\<forall>a\<in>set (managedCooks km). \<not> instanceof (heap w ! a) (RequiredCookType fd))"
  then have "find (\<lambda>cook. instanceof (heap w ! cook) (RequiredCookType fd)) (managedCooks km) = None"
    by (simp add: find_None_iff)
  with a show "findSuitableCook fd km w =
              (km\<lparr>activeCook := length (heap w),
                  managedCooks := managedCooks km @ [length (heap w)]\<rparr>,
               \<lparr>heap = heap w @ [new_Cook (RequiredCookType fd) ''George''],
                stdout = stdout w @ [''Changing currently active cook!'']\<rparr>)"
    by (simp add: findSuitableCook_new)
next
  show "new_Cook (RequiredCookType fd) ''George'' =
                (if fd = ''pizza''
                 then PizzaMaker ''George'' \<lparr>flour = None, topping = None, pizza_cheese = None\<rparr>
                 else SandwichMaker ''George''
                        \<lparr>bread = None, filling = None, sandwich_cheese = None\<rparr>)"
    by (simp add: RequiredCookType_def new_PizzaMaker_def new_SandwichMaker_def
          new_Pizza_def new_Sandwich_def)
next
  from reachable_inv [OF assms] show "length (heap w) \<notin> set (managedCooks km)"
    by (auto simp: manager_inv_def valid_ref_def list_all_iff)
qed

theorem findSuitableCook_behaviour_witness:
  "reachable kitchenManager example_world
   \<and> findSuitableCook ''pizza'' kitchenManager example_world = (kitchenManager, example_world)
   \<and> findSuitableCook ''sandwich'' kitchenManager example_world =
       (kitchenManager\<lparr>activeCook := 1\<rparr>,
        example_world\<lparr>stdout := [''Changing currently active cook!'']\<rparr>)
   \<and> reachable pizzaOnlyManager example_world
   \<and> findSuitableCook ''sandwich'' pizzaOnlyManager example_world =
       (pizzaOnlyManager\<lparr>activeCook := 2, managedCooks := [0, 2]\<rparr>,
        \<lparr>heap = heap example_world
                  @ [SandwichMaker ''George''
                       \<lparr>bread = None, filling = None, sandwich_cheese = None\<rparr>],
         stdout = [''Changing currently active cook!'']\<rparr>)"
proof -
  have r1: "reachable kitchenManager example_world"
    by (rule reachable.constructed [of "''Melissa''" "[0, 1]"])
       (simp_all add: new_KitchenManager_def kitchenManager_def valid_ref_def example_world_def)
  have r2: "reachable pizzaOnlyManager example_world"
    by (rule reachable.constructed [of "''Melissa''" "[0]"])
       (simp_all add: new_KitchenManager_def pizzaOnlyManager_def valid_ref_def
          example_world_def)
  show ?thesis
    using r1 r2 findSuitableCook_behaviour [OF r1, of "''pizza''"]
      findSuitableCook_behaviour [OF r1, of "''sandwich''" 1]
      findSuitableCook_behaviour [OF r2, of "''sandwich''"]
    by (simp add: kitchenManager_def pizzaOnlyManager_def example_world_def
          RequiredCookType_def)
qed

text \<open>
  C10. In every state that a successful construction followed by any sequence of
  \<open>fulfillOrder\<close> calls reaches, the managed collection is not empty and the active cook
  is one of its elements.
\<close>

theorem active_cook_is_managed:
  assumes "reachable km w"
  shows "managedCooks km \<noteq> [] \<and> activeCook km \<in> set (managedCooks km)"
  using reachable_inv [OF assms] by (auto simp: manager_inv_def)

theorem active_cook_is_managed_witness:
  "reachable (fst (snd (fulfillOrder pastramiSandwich_order pizzaOnlyManager example_world)))
             (snd (snd (fulfillOrder pastramiSandwich_order pizzaOnlyManager example_world)))
   \<and> managedCooks
        (fst (snd (fulfillOrder pastramiSandwich_order pizzaOnlyManager example_world))) \<noteq> []
   \<and> activeCook (fst (snd (fulfillOrder pastramiSandwich_order pizzaOnlyManager example_world)))
       \<in> set (managedCooks
                (fst (snd (fulfillOrder pastramiSandwich_order pizzaOnlyManager example_world))))"
proof -
  have r0: "reachable pizzaOnlyManager example_world"
    by (rule reachable.constructed [of "''Melissa''" "[0]"])
       (simp_all add: new_KitchenManager_def pizzaOnlyManager_def valid_ref_def
          example_world_def)
  have r1: "reachable
              (fst (snd (fulfillOrder pastramiSandwich_order pizzaOnlyManager example_world)))
              (snd (snd (fulfillOrder pastramiSandwich_order pizzaOnlyManager example_world)))"
    by (rule reachable.served [OF r0, of pastramiSandwich_order
          "fst (fulfillOrder pastramiSandwich_order pizzaOnlyManager example_world)"]) simp
  show ?thesis
    using r1 active_cook_is_managed [OF r1] by simp
qed

section \<open>Properties of the factory\<close>

lemma number_toString_1: "number_toString 1 = ''1''"
  by (simp add: number_toString_def digits_of.simps)

text \<open>
  C5. For every name and every draw of the random source, a request for one of the weapons
  \<open>"Hammer"\<close>, \<open>"Axe"\<close> and \<open>"Sword"\<close> returns a \<open>Warrior\<close> of level 1 whose weapon is
  \<open>"Sword"\<close>, whatever the weapon requested, and whose sub-type is \<open>"Barbarian"\<close> or
  \<open>"Paladin"\<close>.
\<close>

theorem warrior_only_weapons:
  assumes "wp \<in> {''Hammer'', ''Axe'', ''Sword''}"
  shows "\<exists>t. (t = ''Barbarian'' \<or> t = ''Paladin'')
           \<and> createNewCharacter rnd n wp =
               Inr (Warrior n ''Warrior'' 1 t (n @ '' [Lvl 1 '' @ t @ '' Warrior]'') ''Sword'')"
  using assms
  by (auto simp: createNewCharacter_def array_includes_def Object_keys_def mageWeaponsMap_def
        warriorWeaponsMap_def new_Warrior_def getRandomType_def make_identifier_def
        number_toString_1)

theorem warrior_only_weapons_witness:
  "''Hammer'' \<in> {''Hammer'', ''Axe'', ''Sword''}
   \<and> (\<exists>t. (t = ''Barbarian'' \<or> t = ''Paladin'')
          \<and> createNewCharacter (7 / 10) ''John'' ''Hammer'' =
              Inr (Warrior ''John'' ''Warrior'' 1 t (''John'' @ '' [Lvl 1 '' @ t @ '' Warrior]'')
                     ''Sword''))"
proof -
  have h: "''Hammer'' \<in> {''Hammer'', ''Axe'', ''Sword''}" by simp
  show ?thesis
    using h warrior_only_weapons [OF h, of "7 / 10" "''John''"] by simp
qed

text \<open>
  C6. For every name and every draw, a request for \<open>"Scepter"\<close> returns a \<open>Mage\<close> of level 1
  with \<open>usesScepter\<close> true and sub-type \<open>"Fire"\<close> or \<open>"Ice"\<close>.
\<close>

theorem scepter_gives_mage:
  "\<exists>t. (t = ''Fire'' \<or> t = ''Ice'')
      \<and> createNewCharacter rnd n ''Scepter'' =
           Inr (Mage n ''Mage'' 1 t (n @ '' [Lvl 1 '' @ t @ '' Mage]'') True)"
  by (auto simp: createNewCharacter_def array_includes_def Object_keys_def mageWeaponsMap_def
        new_Mage_def getRandomType_def make_identifier_def number_toString_1)

theorem scepter_gives_mage_witness:
  "\<exists>t. (t = ''Fire'' \<or> t = ''Ice'')
      \<and> createNewCharacter (2 / 10) ''Alicia'' ''Scepter'' =
           Inr (Mage ''Alicia'' ''Mage'' 1 t (''Alicia'' @ '' [Lvl 1 '' @ t @ '' Mage]'') True)"
  using scepter_gives_mage [of "2 / 10" "''Alicia''"] by simp

text \<open>
  C7. \<open>"Hands"\<close> is a key of both weapon tables, and for every name and every draw a request
  for \<open>"Hands"\<close> returns a \<open>Mage\<close>: the mage table is tested first.
\<close>

theorem hands_gives_mage:
  "array_includes (Object_keys mageWeaponsMap) ''Hands''
   \<and> array_includes (Object_keys warriorWeaponsMap) ''Hands''
   \<and> (\<exists>t. createNewCharacter rnd n ''Hands'' =
           Inr (Mage n ''Mage'' 1 t (n @ '' [Lvl 1 '' @ t @ '' Mage]'') True))"
  by (auto simp: createNewCharacter_def array_includes_def Object_keys_def mageWeaponsMap_def
        warriorWeaponsMap_def new_Mage_def getRandomType_def make_identifier_def number_toString_1)

theorem hands_gives_mage_witness:
  "\<exists>t. createNewCharacter (7 / 10) ''Alicia'' ''Hands'' =
         Inr (Mage ''Alicia'' ''Mage'' 1 t (''Alicia'' @ '' [Lvl 1 '' @ t @ '' Mage]'') True)"
  using hands_gives_mage [of "7 / 10" "''Alicia''"] by simp

text \<open>
  C8. For every name, every draw and every weapon string that is in neither
  \<open>{"Hands", "Scepter"}\<close> nor \<open>{"Hands", "Axe", "Sword", "Hammer"}\<close>, \<open>createNewCharacter\<close>
  fails with the unsupported-weapon error; no character is returned.
\<close>

theorem unsupported_weapon_fails:
  assumes "wp \<notin> {''Hands'', ''Scepter''}" and "wp \<notin> {''Hands'', ''Axe'', ''Sword'', ''Hammer''}"
  shows "createNewCharacter rnd n wp =
           Inl (Error ''This weapon is not available for standard characters!'')"
  using assms
  by (simp add: createNewCharacter_def array_includes_def Object_keys_def mageWeaponsMap_def
        warriorWeaponsMap_def)

theorem unsupported_weapon_fails_witness:
  "''Unknown'' \<notin> {''Hands'', ''Scepter''}
   \<and> ''Unknown'' \<notin> {''Hands'', ''Axe'', ''Sword'', ''Hammer''}
   \<and> createNewCharacter (7 / 10) ''John'' ''Unknown'' =
       Inl (Error ''This weapon is not available for standard characters!'')"
proof -
  have h1: "''Unknown'' \<notin> {''Hands'', ''Scepter''}" by simp
  have h2: "''Unknown'' \<notin> {''Hands'', ''Axe'', ''Sword'', ''Hammer''}" by simp
  show ?thesis
    using h1 h2 unsupported_weapon_fails [OF h1 h2, of "7 / 10" "''John''"] by simp
qed

end
